theory Spec2Isabelle
  imports Complex_Main "HOL-Library.Sublist" "HOL-Library.List_Lexorder" "HOL-Library.Char_ord"
begin

section \<open>Numbers\<close>

text \<open>
  JavaScript Numbers are IEEE doubles. Throughout this development a finite Number is
  idealised as a \<^typ>\<open>real\<close>: rounding error is not modelled. Counters that the code only
  ever initialises to 0 and increments by 1 are \<^typ>\<open>nat\<close>.
\<close>

section \<open>models/TradingConfig.js\<close>

text \<open>
  The fields of the TradingConfig document that its methods read or write. The Date
  fields (\<open>lastModified\<close>, \<open>dailyStats.lastResetDate\<close>) carry no logic and are left out;
  \<open>this.save()\<close> persists the document and is the identity on its fields.
\<close>

record dailyStats =
  currentPnL :: real
  tradesCount :: nat
  ds_winRate :: real

record tradingHours =
  enabled :: bool
  startTime :: string
  endTime :: string

record tradingConfig =
  c_userId :: nat
  dailyLossLimit :: real
  capitalConservationMode :: bool
  tradingHours :: tradingHours
  dailyStats :: dailyStats
  emergencyStop :: bool
  emergencyStopReason :: string
  isActive :: bool

text \<open>\<open>resetDailyStats\<close>: zeroes the three daily statistics.\<close>

definition resetDailyStats :: "tradingConfig \<Rightarrow> tradingConfig" where
  "resetDailyStats c =
     c\<lparr>dailyStats := (dailyStats c)\<lparr>currentPnL := 0, tradesCount := 0, ds_winRate := 0\<rparr>\<rparr>"

text \<open>
  \<open>updateDailyPnL(pnl, isWin)\<close>: adds to the daily P&L and the trade count, then trips the
  breaker when \<open>Math.abs(currentPnL) >= dailyLossLimit\<close>. The argument \<open>isWin\<close> is unused by
  the source.
\<close>

definition updateDailyPnL :: "tradingConfig \<Rightarrow> real \<Rightarrow> bool \<Rightarrow> tradingConfig" where
  "updateDailyPnL c pnl isWin =
     (let c1 = c\<lparr>dailyStats := (dailyStats c)\<lparr>currentPnL := currentPnL (dailyStats c) + pnl\<rparr>\<rparr>;
          c2 = c1\<lparr>dailyStats := (dailyStats c1)\<lparr>tradesCount := tradesCount (dailyStats c1) + 1\<rparr>\<rparr>
      in if abs (currentPnL (dailyStats c2)) \<ge> dailyLossLimit c2
         then c2\<lparr>emergencyStop := True,
                 emergencyStopReason := ''Daily loss limit reached'',
                 capitalConservationMode := True\<rparr>
         else c2)"

text \<open>
  \<open>isTradingAllowed()\<close>. The second argument is \<open>new Date().toTimeString().slice(0, 5)\<close>,
  the wall-clock time \<open>HH:MM\<close>; JavaScript compares the strings code unit by code unit,
  which on ASCII is the lexicographic order of \<^typ>\<open>string\<close>.
\<close>

definition isTradingAllowed :: "tradingConfig \<Rightarrow> string \<Rightarrow> bool" where
  "isTradingAllowed c currentTime =
     (if emergencyStop c then False
      else if \<not> isActive c then False
      else if abs (currentPnL (dailyStats c)) \<ge> dailyLossLimit c then False
      else if enabled (tradingHours c)
              \<and> (currentTime < startTime (tradingHours c) \<or> currentTime > endTime (tradingHours c))
           then False
      else True)"

section \<open>models/Strategy.js\<close>

record strategy =
  totalTrades :: nat
  winningTrades :: nat
  losingTrades :: nat
  winRate :: real
  totalPnL :: real
  avgPnL :: real
  confidenceScore :: real
  consecutiveLosses :: nat

text \<open>\<open>updateConfidenceScore(isWin)\<close> with \<open>learningRate = 0.1\<close>, bounds 95 and 5.\<close>

definition learningRate :: real where "learningRate = 1 / 10"
definition maxConfidence :: real where "maxConfidence = 95"
definition minConfidence :: real where "minConfidence = 5"

definition updateConfidenceScore :: "bool \<Rightarrow> strategy \<Rightarrow> strategy" where
  "updateConfidenceScore isWin s =
     (let s1 = (if isWin
                then s\<lparr>confidenceScore :=
                        min maxConfidence (confidenceScore s + learningRate * (100 - confidenceScore s))\<rparr>
                else s\<lparr>confidenceScore :=
                        max minConfidence (confidenceScore s - learningRate * confidenceScore s)\<rparr>)
      in if consecutiveLosses s1 \<ge> 3
         then s1\<lparr>confidenceScore := max minConfidence (confidenceScore s1 * (8 / 10))\<rparr>
         else s1)"

text \<open>
  \<open>updatePerformance(trade)\<close>; only \<open>trade.pnl\<close> is read. \<open>totalTrades\<close> has just been
  incremented when it divides, so the divisions are by a positive number.
\<close>

definition updatePerformance :: "strategy \<Rightarrow> real \<Rightarrow> strategy" where
  "updatePerformance s pnl =
     (let s1 = s\<lparr>totalTrades := totalTrades s + 1\<rparr>;
          s2 = s1\<lparr>totalPnL := totalPnL s1 + pnl\<rparr>;
          s3 = s2\<lparr>avgPnL := totalPnL s2 / real (totalTrades s2)\<rparr>;
          s4 = (if pnl > 0
                then s3\<lparr>winningTrades := winningTrades s3 + 1, consecutiveLosses := 0\<rparr>
                else s3\<lparr>losingTrades := losingTrades s3 + 1,
                        consecutiveLosses := consecutiveLosses s3 + 1\<rparr>);
          s5 = s4\<lparr>winRate := real (winningTrades s4) / real (totalTrades s4) * 100\<rparr>
      in updateConfidenceScore (pnl > 0) s5)"

text \<open>
  The two methods that change the confidence score, and a run of calls of them in any
  order (an \<open>UpdatePerformance\<close> call carries the pnl of its trade).
\<close>

datatype strategyCall = UpdatePerformance real | UpdateConfidenceScore bool

fun applyCall :: "strategy \<Rightarrow> strategyCall \<Rightarrow> strategy" where
  "applyCall s (UpdatePerformance pnl) = updatePerformance s pnl"
| "applyCall s (UpdateConfidenceScore isWin) = updateConfidenceScore isWin s"

definition runCalls :: "strategy \<Rightarrow> strategyCall list \<Rightarrow> strategy" where
  "runCalls s cs = foldl applyCall s cs"

text \<open>A strategy as \<open>Strategy.create\<close> makes it in \<open>processAISignal\<close>: schema defaults, confidence 50.\<close>

definition newStrategy :: strategy where
  "newStrategy = \<lparr>totalTrades = 0, winningTrades = 0, losingTrades = 0, winRate = 0,
                  totalPnL = 0, avgPnL = 0, confidenceScore = 50, consecutiveLosses = 0\<rparr>"

section \<open>JavaScript values and string methods\<close>

text \<open>
  The built-ins that \<open>tradingService.js\<close> calls, on ASCII strings (\<^typ>\<open>string\<close> is a list
  of bytes; the non-ASCII white space and case mappings of JavaScript are outside the model).
\<close>

text \<open>\<open>s.includes(pat)\<close>: \<open>pat\<close> occurs in \<open>s\<close> as a contiguous substring.\<close>

fun includesSub :: "string \<Rightarrow> string \<Rightarrow> bool" where
  "includesSub [] pat = (pat = [])"
| "includesSub (c # cs) pat = (prefix pat (c # cs) \<or> includesSub cs pat)"

text \<open>\<open>s.replace(pat, rep)\<close> with a string pattern: only the first occurrence is replaced.\<close>

fun replaceFirst :: "string \<Rightarrow> string \<Rightarrow> string \<Rightarrow> string" where
  "replaceFirst [] pat rep = (if pat = [] then rep else [])"
| "replaceFirst (c # cs) pat rep =
     (if prefix pat (c # cs) then rep @ drop (length pat) (c # cs)
      else c # replaceFirst cs pat rep)"

text \<open>\<open>s.split(sep)\<close> with a one-character separator; an empty string splits into \<open>[""]\<close>.\<close>

fun split :: "string \<Rightarrow> char \<Rightarrow> string list" where
  "split [] sep = [] # []"
| "split (c # cs) sep =
     (if c = sep then [] # split cs sep
      else (case split cs sep of [] \<Rightarrow> [c] # [] | w # ws \<Rightarrow> (c # w) # ws))"

definition isWhiteSpace :: "char \<Rightarrow> bool" where
  "isWhiteSpace c = (c \<in> {CHR 0x20, CHR 0x09, CHR 0x0A, CHR 0x0B, CHR 0x0C, CHR 0x0D})"

definition trim :: "string \<Rightarrow> string" where
  "trim s = rev (dropWhile isWhiteSpace (rev (dropWhile isWhiteSpace s)))"

definition upperChar :: "char \<Rightarrow> char" where
  "upperChar c =
     (case map_of (zip ''abcdefghijklmnopqrstuvwxyz'' ''ABCDEFGHIJKLMNOPQRSTUVWXYZ'') c of
        None \<Rightarrow> c | Some u \<Rightarrow> u)"

definition toUpperCase :: "string \<Rightarrow> string" where
  "toUpperCase s = map upperChar s"

text \<open>
  The value of a field of a JSON payload. Arrays and nested objects do not occur in the
  payloads the service handles and are left out.
\<close>

datatype jsval = JUndefined | JNull | JBool bool | JNum real | JStr string

fun truthy :: "jsval \<Rightarrow> bool" where
  "truthy JUndefined = False"
| "truthy JNull = False"
| "truthy (JBool b) = b"
| "truthy (JNum r) = (r \<noteq> 0)"
| "truthy (JStr s) = (s \<noteq> [])"

text \<open>
  \<open>v?.m(...)\<close> for a string method \<open>m\<close>. The outer \<open>None\<close> is the TypeError that a number or
  a boolean raises (it has no such method); \<open>Some None\<close> is \<open>undefined\<close>, the value of the
  optional chain on \<open>undefined\<close> and \<open>null\<close>.
\<close>

fun optCall :: "(string \<Rightarrow> string) \<Rightarrow> jsval \<Rightarrow> string option option" where
  "optCall m JUndefined = Some None"
| "optCall m JNull = Some None"
| "optCall m (JStr s) = Some (Some (m s))"
| "optCall m (JBool b) = None"
| "optCall m (JNum r) = None"

text \<open>
  \<open>parseFloat\<close> is a built-in, not code of the repository: its action on strings is the
  parameter \<open>pf\<close>, with \<open>None\<close> for NaN. On a Number it returns that Number, on a
  boolean, \<open>undefined\<close> or \<open>null\<close> it returns NaN.
\<close>

fun parseFloatVal :: "(string \<Rightarrow> real option) \<Rightarrow> jsval \<Rightarrow> real option" where
  "parseFloatVal pf (JStr s) = pf s"
| "parseFloatVal pf (JNum r) = Some r"
| "parseFloatVal pf v = None"

text \<open>
  A Number that may be infinite or NaN: the position size is a quotient whose divisor
  can be 0.
\<close>

datatype jsnum = Num real | PosInfinity | NegInfinity | NaN

fun divideNum :: "real \<Rightarrow> real \<Rightarrow> jsnum" where
  "divideNum x y =
     (if y \<noteq> 0 then Num (x / y)
      else if x > 0 then PosInfinity else if x < 0 then NegInfinity else NaN)"

fun mapNum :: "(real \<Rightarrow> real) \<Rightarrow> jsnum \<Rightarrow> jsnum" where
  "mapNum f (Num r) = Num (f r)"
| "mapNum f n = n"

section \<open>services/tradingService.js: parseSignal\<close>

text \<open>
  The webhook payload: a string (TradingView alert text), an object with the six fields
  the parser reads, \<open>null\<close> (whose \<open>typeof\<close> is also \<open>'object'\<close>), or anything else.
\<close>

record payload =
  p_symbol :: jsval
  p_action :: jsval
  p_side :: jsval
  p_price :: jsval
  p_type :: jsval
  p_quantity :: jsval

datatype rawSignal = RawText string | RawObject payload | RawNull | RawOther

text \<open>
  The parsed signal. \<open>None\<close> in \<open>s_symbol\<close> and \<open>s_side\<close> is \<open>undefined\<close>; \<open>None\<close> in
  \<open>s_price\<close> and \<open>s_quantity\<close> is \<open>null\<close>, \<open>undefined\<close> or NaN, which the service never
  tells apart (it only tests these two fields for truthiness).
\<close>

record signal =
  s_symbol :: "string option"
  s_side :: "string option"
  s_price :: "real option"
  s_type :: string
  s_quantity :: "real option"

text \<open>
  \<open>lines.find(line => line.includes(key))?.split(':')[1]?.trim()\<close>
\<close>

definition lineValue :: "string list \<Rightarrow> string \<Rightarrow> string option" where
  "lineValue lines key =
     (case find (\<lambda>line. includesSub line key) lines of
        None \<Rightarrow> None
      | Some line \<Rightarrow> (case split line CHR '':'' of
                       a # b # rest \<Rightarrow> Some (trim b)
                     | _ \<Rightarrow> None))"

text \<open>The symbol normalisation both branches apply: \<open>symbol.replace('USDT', '')\<close>.\<close>

definition normalize :: "string \<Rightarrow> string" where
  "normalize symbol = replaceFirst symbol ''USDT'' []"

text \<open>
  The object branch; \<open>None\<close> when building the object throws. In \<open>a || b\<close> the empty
  string and \<open>undefined\<close> are falsy.
\<close>

definition parseObject :: "(string \<Rightarrow> real option) \<Rightarrow> payload \<Rightarrow> signal option" where
  "parseObject pf p =
     (case optCall normalize (p_symbol p) of
        None \<Rightarrow> None
      | Some symb \<Rightarrow>
     (case optCall toUpperCase (p_action p) of
        None \<Rightarrow> None
      | Some act \<Rightarrow>
     (case (case act of Some (c # cs) \<Rightarrow> Some act | _ \<Rightarrow> optCall toUpperCase (p_side p)) of
        None \<Rightarrow> None
      | Some sd \<Rightarrow>
     (case optCall toUpperCase (p_type p) of
        None \<Rightarrow> None
      | Some ty \<Rightarrow>
          Some \<lparr>s_symbol = symb,
                s_side = sd,
                s_price = (if truthy (p_price p) then parseFloatVal pf (p_price p) else None),
                s_type = (case ty of Some (c # cs) \<Rightarrow> c # cs | _ \<Rightarrow> ''MARKET''),
                s_quantity = (if truthy (p_quantity p) then parseFloatVal pf (p_quantity p)
                              else None)\<rparr>))))"

text \<open>
  The text branch: \<open>price || null\<close> turns NaN and 0 into \<open>null\<close>; the result has no
  \<open>quantity\<close>. Without a non-empty action and symbol the function falls through to
  \<open>return null\<close>.
\<close>

definition parseText :: "(string \<Rightarrow> real option) \<Rightarrow> string \<Rightarrow> signal option" where
  "parseText pf text =
     (let lines = split text CHR 0x0A;
          action = lineValue lines ''ACTION:'';
          symbol = lineValue lines ''SYMBOL:'';
          price = (case lineValue lines ''PRICE:'' of None \<Rightarrow> None | Some v \<Rightarrow> pf v)
      in case (action, symbol) of
           (Some (a # as), Some (b # bs)) \<Rightarrow>
             Some \<lparr>s_symbol = Some (normalize (b # bs)),
                   s_side = Some (if toUpperCase (a # as) = ''BUY'' then ''BUY'' else ''SELL''),
                   s_price = (case price of Some x \<Rightarrow> if x = 0 then None else Some x
                              | None \<Rightarrow> None),
                   s_type = ''MARKET'',
                   s_quantity = None\<rparr>
         | _ \<Rightarrow> None)"

text \<open>\<open>parseSignal\<close>; \<open>None\<close> is its \<open>null\<close>. Reading a field of \<open>null\<close> throws, which the
  \<open>catch\<close> turns into \<open>null\<close>.\<close>

fun parseSignal :: "(string \<Rightarrow> real option) \<Rightarrow> rawSignal \<Rightarrow> signal option" where
  "parseSignal pf (RawText text) = parseText pf text"
| "parseSignal pf (RawObject p) = parseObject pf p"
| "parseSignal pf RawNull = None"
| "parseSignal pf RawOther = None"

section \<open>services/tradingService.js: execution\<close>

text \<open>The fields of the User document that the service reads.\<close>

record riskSettings =
  dailyLossCap :: real
  maxTradeCountPerDay :: real
  maxTradeSizePercent :: real

record user =
  u_id :: nat
  enabledCoins :: "string list"
  paperTradingMode :: bool
  deltaConnected :: bool
  deltaApiKey :: string
  deltaApiSecret :: string
  riskSettings :: riskSettings
  u_consecutiveLosses :: nat

datatype tradeStatus = PENDING | FILLED | CANCELLED | REJECTED

text \<open>
  The Trade document (models/Trade.js). Its post-save hook, which adds the pnl of a FILLED
  trade to the counters of the stored User, writes to another collection and is outside
  the model.
\<close>

record trade =
  t_userId :: nat
  t_symbol :: string
  t_side :: string
  t_type :: string
  t_quantity :: jsnum
  t_price :: real
  t_executedPrice :: real
  t_status :: tradeStatus
  t_orderId :: string
  t_strategy :: string
  t_confidenceScore :: real
  t_pnl :: real
  t_fees :: real
  t_paperTrade :: bool
  t_createdAt :: nat

text \<open>
  The errors the service throws: \<open>'Invalid signal format'\<close>, \<open>'Trading not enabled for ...'\<close>,
  \<open>'Daily trade limit reached'\<close>, \<open>'Trading stopped due to consecutive losses'\<close>,
  \<open>'Daily loss cap reached'\<close>, \<open>'Failed to execute order on Delta Exchange'\<close>, and the
  validation error of \<open>Trade.create\<close>.
\<close>

datatype tradingError =
    InvalidSignalFormat
  | CoinDisabled "string option"
  | DailyTradeLimitExceeded
  | ConsecutiveLossCutoff
  | DailyLossCapReached
  | ConnectorError
  | TradeValidationError

text \<open>The order sent to the exchange, and the requests made to it.\<close>

record order =
  product_id :: nat
  o_side :: string
  order_type :: string
  o_size :: jsnum
  limit_price :: "real option"

datatype call = GetTicker string | PostOrder order

text \<open>
  What is outside the repository: the exchange's answers (\<open>None\<close> when the request fails
  or its answer cannot be read; an answered ticker request carries a finite mark price),
  \<open>decrypt\<close> of utils/encryption, the built-in \<open>parseFloat\<close>, and the clock (\<open>now\<close>, and
  \<open>today\<close>, the local midnight before it).
\<close>

record env =
  ticker :: "string \<Rightarrow> real option"
  postOrder :: "order \<Rightarrow> string option"
  decrypt :: "string \<Rightarrow> string"
  parseFloat :: "string \<Rightarrow> real option"
  now :: nat
  today :: nat

text \<open>What a call of the service leaves behind: its result, the stored trades, the requests
  made to the exchange in order.\<close>

record outcome =
  result :: "tradingError + trade"
  stored :: "trade list"
  calls :: "call list"

text \<open>\<open>calculatePositionSize\<close>; the account balance is the constant 10000 of the source.\<close>

definition accountBalance :: real where "accountBalance = 10000"

definition calculatePositionSize :: "user \<Rightarrow> real \<Rightarrow> jsnum" where
  "calculatePositionSize u price =
     (let maxTradeSize = maxTradeSizePercent (riskSettings u) / 100;
          maxPositionValue = accountBalance * maxTradeSize
      in mapNum (\<lambda>x. x / 100)
           (mapNum (\<lambda>x. of_int (floor x)) (mapNum (\<lambda>x. x * 100) (divideNum maxPositionValue price))))"

text \<open>
  \<open>getCurrentPrice\<close>: one ticker request for \<open>symbol + 'USDT'\<close>; when it fails the
  \<open>catch\<close> returns 50000.
\<close>

definition getCurrentPrice :: "env \<Rightarrow> string \<Rightarrow> real \<times> call list" where
  "getCurrentPrice e symbol =
     (case ticker e (symbol @ ''USDT'') of
        Some markPrice \<Rightarrow> (markPrice, [GetTicker (symbol @ ''USDT'')])
      | None \<Rightarrow> (50000, [GetTicker (symbol @ ''USDT'')]))"

definition getProductId :: "string \<Rightarrow> nat" where
  "getProductId symbol =
     (case map_of [(''BTCUSDT'', 1), (''ETHUSDT'', 2), (''ADAUSDT'', 3), (''DOTUSDT'', 4),
                   (''LINKUSDT'', 5)] symbol of
        Some n \<Rightarrow> n | None \<Rightarrow> 1)"

definition toLowerCase :: "string \<Rightarrow> string" where
  "toLowerCase s =
     map (\<lambda>c. case map_of (zip ''ABCDEFGHIJKLMNOPQRSTUVWXYZ'' ''abcdefghijklmnopqrstuvwxyz'') c of
                None \<Rightarrow> c | Some l \<Rightarrow> l) s"

text \<open>
  \<open>executeDeltaOrder\<close>: \<open>None\<close> when it throws (keys missing, before any request, or the
  request failing); otherwise the order id of the answer.
\<close>

definition executeDeltaOrder :: "env \<Rightarrow> user \<Rightarrow> trade \<Rightarrow> string option \<times> call list" where
  "executeDeltaOrder e u t =
     (let apiKey = decrypt e (deltaApiKey u);
          apiSecret = decrypt e (deltaApiSecret u)
      in if apiKey = [] \<or> apiSecret = [] then (None, [])
         else let orderData = \<lparr>product_id = getProductId (t_symbol t),
                                o_side = toLowerCase (t_side t),
                                order_type = toLowerCase (t_type t),
                                o_size = t_quantity t,
                                limit_price = (if t_type t = ''LIMIT'' then Some (t_price t)
                                               else None)\<rparr>
              in (postOrder e orderData, [PostOrder orderData]))"

text \<open>
  The first step of \<open>executeTrade\<close>: \<open>let price = signal.price; if (!price) price =
  await getCurrentPrice(signal.symbol)\<close>. A missing \<open>signal.symbol\<close> would be
  interpolated as \<open>undefined\<close>; in \<open>processWebhookSignal\<close> it is a string, found in
  \<open>enabledCoins\<close>.
\<close>

definition symbolOf :: "signal \<Rightarrow> string" where
  "symbolOf sg = (case s_symbol sg of Some s \<Rightarrow> s | None \<Rightarrow> ''undefined'')"

definition resolvePrice :: "env \<Rightarrow> signal \<Rightarrow> real \<times> call list" where
  "resolvePrice e sg =
     (case s_price sg of
        Some p \<Rightarrow> if p \<noteq> 0 then (p, []) else getCurrentPrice e (symbolOf sg)
      | None \<Rightarrow> getCurrentPrice e (symbolOf sg))"

text \<open>\<open>signal.quantity || positionSize\<close>\<close>

definition tradeQuantity :: "user \<Rightarrow> signal \<Rightarrow> real \<Rightarrow> jsnum" where
  "tradeQuantity u sg price =
     (case s_quantity sg of
        Some q \<Rightarrow> if q \<noteq> 0 then Num q else calculatePositionSize u price
      | None \<Rightarrow> calculatePositionSize u price)"

text \<open>
  \<open>Trade.create\<close> validates against the schema: \<open>side\<close> is required and one of BUY, SELL;
  \<open>type\<close> is one of MARKET, LIMIT; \<open>quantity\<close> must be a Number, which NaN is not. The
  fields the call does not give take the schema's defaults.
\<close>

definition validTrade :: "string option \<Rightarrow> string \<Rightarrow> jsnum \<Rightarrow> bool" where
  "validTrade sd ty qty =
     ((sd = Some ''BUY'' \<or> sd = Some ''SELL'') \<and> (ty = ''MARKET'' \<or> ty = ''LIMIT'') \<and> qty \<noteq> NaN)"

definition createTrade :: "env \<Rightarrow> user \<Rightarrow> signal \<Rightarrow> real \<Rightarrow> tradingError + trade" where
  "createTrade e u sg price =
     (let ty = (if s_type sg \<noteq> [] then s_type sg else ''MARKET'');
          qty = tradeQuantity u sg price
      in if \<not> validTrade (s_side sg) ty qty then Inl TradeValidationError
         else Inr \<lparr>t_userId = u_id u, t_symbol = symbolOf sg @ ''USDT'',
                    t_side = (case s_side sg of Some s \<Rightarrow> s | None \<Rightarrow> []),
                    t_type = ty, t_quantity = qty, t_price = price, t_executedPrice = 0,
                    t_status = PENDING, t_orderId = [], t_strategy = ''webhook_signal'',
                    t_confidenceScore = 75, t_pnl = 0, t_fees = 0,
                    t_paperTrade = paperTradingMode u, t_createdAt = now e\<rparr>)"

text \<open>
  \<open>executeTrade(user, signal)\<close> on the stored trades \<open>db\<close>: the price, the created
  trade, then the order on the exchange when the user trades live and is connected, and
  the simulated fill otherwise. A failed order leaves the trade stored as REJECTED.
\<close>

definition executeTrade :: "env \<Rightarrow> trade list \<Rightarrow> user \<Rightarrow> signal \<Rightarrow> outcome" where
  "executeTrade e db u sg =
     (let (price, calls1) = resolvePrice e sg
      in case createTrade e u sg price of
           Inl err \<Rightarrow> \<lparr>result = Inl err, stored = db, calls = calls1\<rparr>
         | Inr t \<Rightarrow>
             if \<not> paperTradingMode u \<and> deltaConnected u
             then (case executeDeltaOrder e u t of
                     (Some oid, calls2) \<Rightarrow>
                       (let t' = t\<lparr>t_orderId := oid, t_status := PENDING\<rparr>
                        in \<lparr>result = Inr t', stored = db @ [t'], calls = calls1 @ calls2\<rparr>)
                   | (None, calls2) \<Rightarrow>
                       (let t' = t\<lparr>t_status := REJECTED\<rparr>
                        in \<lparr>result = Inl ConnectorError, stored = db @ [t'],
                            calls = calls1 @ calls2\<rparr>))
             else (let t' = t\<lparr>t_status := FILLED, t_executedPrice := price\<rparr>
                   in \<lparr>result = Inr t', stored = db @ [t'], calls = calls1\<rparr>))"

section \<open>services/tradingService.js: processWebhookSignal\<close>

text \<open>The two queries on today's trades of the user.\<close>

definition todayTrades :: "env \<Rightarrow> trade list \<Rightarrow> user \<Rightarrow> nat" where
  "todayTrades e db u =
     length (filter (\<lambda>t. t_userId t = u_id u \<and> t_createdAt t \<ge> today e) db)"

definition currentDayPnL :: "env \<Rightarrow> trade list \<Rightarrow> user \<Rightarrow> real" where
  "currentDayPnL e db u =
     sum_list (map t_pnl (filter (\<lambda>t. t_userId t = u_id u \<and> t_createdAt t \<ge> today e
                                       \<and> t_status t = FILLED) db))"

text \<open>
  \<open>processWebhookSignal(user, signal, webhookLogId)\<close>: the guards in the order of the
  source, then \<open>executeTrade\<close>. The writes to WebhookLog and SystemLog are bookkeeping
  outside the model. The function reads the User document only: the TradingConfig
  document of the user is not among its inputs.
\<close>

definition processWebhookSignal :: "env \<Rightarrow> trade list \<Rightarrow> user \<Rightarrow> rawSignal \<Rightarrow> outcome" where
  "processWebhookSignal e db u raw =
     (case parseSignal (parseFloat e) raw of
        None \<Rightarrow> \<lparr>result = Inl InvalidSignalFormat, stored = db, calls = []\<rparr>
      | Some parsedSignal \<Rightarrow>
          if \<not> (case s_symbol parsedSignal of Some s \<Rightarrow> s \<in> set (enabledCoins u) | None \<Rightarrow> False)
          then \<lparr>result = Inl (CoinDisabled (s_symbol parsedSignal)), stored = db, calls = []\<rparr>
          else if real (todayTrades e db u) \<ge> maxTradeCountPerDay (riskSettings u)
          then \<lparr>result = Inl DailyTradeLimitExceeded, stored = db, calls = []\<rparr>
          else if u_consecutiveLosses u \<ge> 3
          then \<lparr>result = Inl ConsecutiveLossCutoff, stored = db, calls = []\<rparr>
          else if currentDayPnL e db u \<le> - dailyLossCap (riskSettings u)
          then \<lparr>result = Inl DailyLossCapReached, stored = db, calls = []\<rparr>
          else executeTrade e db u parsedSignal)"

section \<open>Concrete inputs\<close>

text \<open>Scenario A of the specification: limit 1000, daily P&L -950.\<close>

definition scenarioA :: tradingConfig where
  "scenarioA = \<lparr>c_userId = 1, dailyLossLimit = 1000, capitalConservationMode = False,
                 tradingHours = \<lparr>enabled = False, startTime = ''09:00'', endTime = ''17:00''\<rparr>,
                 dailyStats = \<lparr>currentPnL = -950, tradesCount = 4, ds_winRate = 0\<rparr>,
                 emergencyStop = False, emergencyStopReason = [], isActive = True\<rparr>"

text \<open>A configuration of user 1 after \<open>POST /api/trading/emergency-stop\<close>.\<close>

definition stoppedConfig :: tradingConfig where
  "stoppedConfig = \<lparr>c_userId = 1, dailyLossLimit = 1000, capitalConservationMode = True,
                     tradingHours = \<lparr>enabled = False, startTime = ''09:00'', endTime = ''17:00''\<rparr>,
                     dailyStats = \<lparr>currentPnL = 0, tradesCount = 0, ds_winRate = 0\<rparr>,
                     emergencyStop = True, emergencyStopReason = ''Emergency stop activated'',
                     isActive = False\<rparr>"

text \<open>An exchange that answers no request, and one that quotes 40000 for every ticker.\<close>

definition deadExchange :: env where
  "deadExchange = \<lparr>ticker = (\<lambda>s. None), postOrder = (\<lambda>ord. None), decrypt = (\<lambda>s. s),
                    parseFloat = (\<lambda>s. None), now = 1000, today = 500\<rparr>"

definition liveExchange :: env where
  "liveExchange = \<lparr>ticker = (\<lambda>s. Some 40000), postOrder = (\<lambda>ord. Some ''ord-1''),
                    decrypt = (\<lambda>s. s), parseFloat = (\<lambda>s. None), now = 1000, today = 500\<rparr>"

text \<open>User 1 with the schema defaults: coins BTC and ETH, paper trading, cap 1000,
  10 trades a day, 5 percent of the balance a trade.\<close>

definition paperUser :: user where
  "paperUser = \<lparr>u_id = 1, enabledCoins = [''BTC'', ''ETH''], paperTradingMode = True,
                 deltaConnected = False, deltaApiKey = [], deltaApiSecret = [],
                 riskSettings = \<lparr>dailyLossCap = 1000, maxTradeCountPerDay = 10,
                                 maxTradeSizePercent = 5\<rparr>,
                 u_consecutiveLosses = 0\<rparr>"

definition jsonSignal :: "jsval \<Rightarrow> jsval \<Rightarrow> jsval \<Rightarrow> jsval \<Rightarrow> rawSignal" where
  "jsonSignal symb act pr qty =
     RawObject \<lparr>p_symbol = symb, p_action = act, p_side = JUndefined, p_price = pr,
                p_type = JUndefined, p_quantity = qty\<rparr>"

text \<open>The alert text \<open>"ACTION: HOLD\nSYMBOL: BTCUSDT"\<close>.\<close>

definition holdAlert :: rawSignal where
  "holdAlert = RawText (''ACTION: HOLD'' @ [CHR 0x0A] @ ''SYMBOL: BTCUSDT'')"

text \<open>A trade of user 1, filled today with the given pnl.\<close>

definition filledToday :: "real \<Rightarrow> trade" where
  "filledToday pnl = \<lparr>t_userId = 1, t_symbol = ''ETHUSDT'', t_side = ''BUY'', t_type = ''MARKET'',
                      t_quantity = Num 1, t_price = 2000, t_executedPrice = 2000,
                      t_status = FILLED, t_orderId = [], t_strategy = ''webhook_signal'',
                      t_confidenceScore = 75, t_pnl = pnl, t_fees = 0, t_paperTrade = True,
                      t_createdAt = 600\<rparr>"
section \<open>Circuit breaker on fill\<close>

lemma updateDailyPnL_pnl:
  "currentPnL (dailyStats (updateDailyPnL c pnl w)) = currentPnL (dailyStats c) + pnl"
  by (simp add: updateDailyPnL_def Let_def)

text \<open>
  C2. Applying a fill adds its pnl to the daily P&L; when the absolute value of the new
  daily P&L reaches the daily loss limit, the updater sets emergencyStop, the reason
  "Daily loss limit reached" and capitalConservationMode. In particular, with limit 1000
  and daily P&L -950, a fill with pnl -100 gives -1050 and all three fields set.
\<close>

theorem updateDailyPnL_trips_breaker:
  "(abs (currentPnL (dailyStats c) + pnl) \<ge> dailyLossLimit c \<longrightarrow>
      currentPnL (dailyStats (updateDailyPnL c pnl w)) = currentPnL (dailyStats c) + pnl
      \<and> emergencyStop (updateDailyPnL c pnl w)
      \<and> emergencyStopReason (updateDailyPnL c pnl w) = ''Daily loss limit reached''
      \<and> capitalConservationMode (updateDailyPnL c pnl w))
   \<and> (dailyLossLimit c = 1000 \<and> currentPnL (dailyStats c) = -950 \<longrightarrow>
      currentPnL (dailyStats (updateDailyPnL c (-100) w)) = -1050
      \<and> emergencyStop (updateDailyPnL c (-100) w)
      \<and> emergencyStopReason (updateDailyPnL c (-100) w) = ''Daily loss limit reached''
      \<and> capitalConservationMode (updateDailyPnL c (-100) w))"
  by (simp add: updateDailyPnL_def Let_def)

theorem updateDailyPnL_trips_breaker_witness:
  "abs (currentPnL (dailyStats scenarioA) + (-100)) \<ge> dailyLossLimit scenarioA
   \<and> dailyLossLimit scenarioA = 1000 \<and> currentPnL (dailyStats scenarioA) = -950
   \<and> \<not> emergencyStop scenarioA
   \<and> currentPnL (dailyStats (updateDailyPnL scenarioA (-100) False)) = -1050
   \<and> emergencyStop (updateDailyPnL scenarioA (-100) False)
   \<and> emergencyStopReason (updateDailyPnL scenarioA (-100) False) = ''Daily loss limit reached''
   \<and> capitalConservationMode (updateDailyPnL scenarioA (-100) False)"
proof -
  have h: "abs (currentPnL (dailyStats scenarioA) + (-100)) \<ge> dailyLossLimit scenarioA"
    by (simp add: scenarioA_def)
  have g: "dailyLossLimit scenarioA = 1000 \<and> currentPnL (dailyStats scenarioA) = -950"
    by (simp add: scenarioA_def)
  have n: "\<not> emergencyStop scenarioA" by (simp add: scenarioA_def)
  from updateDailyPnL_trips_breaker [of scenarioA "-100" False] h g n show ?thesis by simp
qed


section \<open>Confidence learning\<close>

lemma win_step_bounds:
  fixes c :: real
  assumes "5 \<le> c" "c \<le> 95"
  shows "5 \<le> min 95 (c + 1 / 10 * (100 - c))" "min 95 (c + 1 / 10 * (100 - c)) \<le> 95"
  using assms by (auto simp add: min_def diff_divide_distrib)

lemma loss_step_bounds:
  fixes c :: real
  assumes "5 \<le> c" "c \<le> 95"
  shows "5 \<le> max 5 (c - 1 / 10 * c)" "max 5 (c - 1 / 10 * c) \<le> 95"
  using assms by (auto simp add: max_def)

lemma penalty_bounds:
  fixes c :: real
  assumes "5 \<le> c" "c \<le> 95"
  shows "5 \<le> max 5 (c * (8 / 10))" "max 5 (c * (8 / 10)) \<le> 95"
  using assms by (auto simp add: max_def)

lemma updateConfidenceScore_bounds:
  assumes "5 \<le> confidenceScore s" "confidenceScore s \<le> 95"
  shows "5 \<le> confidenceScore (updateConfidenceScore w s)
         \<and> confidenceScore (updateConfidenceScore w s) \<le> 95"
proof (cases w)
  case True
  note w = win_step_bounds[OF assms]
  show ?thesis using True w penalty_bounds[OF w]
    by (simp add: updateConfidenceScore_def Let_def learningRate_def maxConfidence_def
        minConfidence_def)
next
  case False
  note l = loss_step_bounds[OF assms]
  show ?thesis using False l penalty_bounds[OF l]
    by (simp add: updateConfidenceScore_def Let_def learningRate_def maxConfidence_def
        minConfidence_def)
qed

lemma updatePerformance_bounds:
  assumes "5 \<le> confidenceScore s" "confidenceScore s \<le> 95"
  shows "5 \<le> confidenceScore (updatePerformance s pnl) \<and> confidenceScore (updatePerformance s pnl) \<le> 95"
proof -
  have "updatePerformance s pnl = updateConfidenceScore (pnl > 0) (
          (if pnl > 0
           then s\<lparr>totalTrades := totalTrades s + 1, totalPnL := totalPnL s + pnl,
                  avgPnL := (totalPnL s + pnl) / real (totalTrades s + 1),
                  winningTrades := winningTrades s + 1, consecutiveLosses := 0,
                  winRate := real (winningTrades s + 1) / real (totalTrades s + 1) * 100\<rparr>
           else s\<lparr>totalTrades := totalTrades s + 1, totalPnL := totalPnL s + pnl,
                  avgPnL := (totalPnL s + pnl) / real (totalTrades s + 1),
                  losingTrades := losingTrades s + 1, consecutiveLosses := consecutiveLosses s + 1,
                  winRate := real (winningTrades s) / real (totalTrades s + 1) * 100\<rparr>))"
    (is "_ = updateConfidenceScore _ ?t")
    by (simp add: updatePerformance_def Let_def)
  moreover have "confidenceScore ?t = confidenceScore s" by simp
  ultimately show ?thesis using updateConfidenceScore_bounds[of ?t "pnl > 0"] assms by simp
qed

lemma applyCall_bounds:
  assumes "5 \<le> confidenceScore s" "confidenceScore s \<le> 95"
  shows "5 \<le> confidenceScore (applyCall s c) \<and> confidenceScore (applyCall s c) \<le> 95"
  using assms by (cases c) (simp_all add: updatePerformance_bounds updateConfidenceScore_bounds)

lemma runCalls_bounds:
  "5 \<le> confidenceScore s \<Longrightarrow> confidenceScore s \<le> 95 \<Longrightarrow>
   5 \<le> confidenceScore (runCalls s cs) \<and> confidenceScore (runCalls s cs) \<le> 95"
  unfolding runCalls_def
proof (induction cs arbitrary: s)
  case Nil
  then show ?case by simp
next
  case (Cons c cs)
  from applyCall_bounds[OF Cons.prems] Cons.IH[of "applyCall s c"] show ?case by simp
qed

text \<open>
  C4. From a confidence score in [5, 95], every finite run of win/loss updates, through
  \<open>updatePerformance\<close> or \<open>updateConfidenceScore\<close> directly and with the
  consecutive-loss penalty, leaves the score in [5, 95] after each update (after every
  prefix of the run).
\<close>

theorem confidence_stays_in_range:
  "5 \<le> confidenceScore s \<Longrightarrow> confidenceScore s \<le> 95 \<Longrightarrow> k \<le> length cs \<Longrightarrow>
   5 \<le> confidenceScore (runCalls s (take k cs)) \<and> confidenceScore (runCalls s (take k cs)) \<le> 95"
  by (rule runCalls_bounds)


theorem confidence_stays_in_range_witness:
  "5 \<le> confidenceScore newStrategy \<and> confidenceScore newStrategy \<le> 95
   \<and> 5 \<le> confidenceScore (runCalls newStrategy
         (take 4 [UpdatePerformance (-10), UpdatePerformance (-10), UpdatePerformance (-10),
                  UpdateConfidenceScore False, UpdatePerformance 20]))
   \<and> confidenceScore (runCalls newStrategy
         (take 4 [UpdatePerformance (-10), UpdatePerformance (-10), UpdatePerformance (-10),
                  UpdateConfidenceScore False, UpdatePerformance 20])) \<le> 95"
proof -
  have a: "5 \<le> confidenceScore newStrategy" and b: "confidenceScore newStrategy \<le> 95"
    by (simp_all add: newStrategy_def)
  have k: "(4::nat) \<le> length [UpdatePerformance (-10), UpdatePerformance (-10),
      UpdatePerformance (-10), UpdateConfidenceScore False, UpdatePerformance 20]"
    by simp
  from confidence_stays_in_range [OF a b k] a b show ?thesis by simp
qed

text \<open>
  C5. With fewer than three consecutive losses, a win takes the score c to
  c + 0.1 * (100 - c) and a loss to c - 0.1 * c, up to the clamp at 95 and 5; from the
  initial score 50 one winning trade gives exactly 55, and a losing trade after it
  gives exactly 49.5.
\<close>

theorem confidence_update_formula:
  "(consecutiveLosses s < 3 \<longrightarrow>
      confidenceScore (updateConfidenceScore True s)
        = min 95 (confidenceScore s + 1 / 10 * (100 - confidenceScore s))
      \<and> confidenceScore (updateConfidenceScore False s)
        = max 5 (confidenceScore s - 1 / 10 * confidenceScore s))
   \<and> confidenceScore (updatePerformance newStrategy 10) = 55
   \<and> confidenceScore (updatePerformance (updatePerformance newStrategy 10) (-10)) = 99 / 2"
  by (simp add: updateConfidenceScore_def updatePerformance_def newStrategy_def Let_def
      learningRate_def maxConfidence_def minConfidence_def)

theorem confidence_update_formula_witness:
  "consecutiveLosses newStrategy < 3
   \<and> confidenceScore (updateConfidenceScore True newStrategy) = 55
   \<and> confidenceScore (updateConfidenceScore False newStrategy) = 45"
proof -
  have h: "consecutiveLosses newStrategy < 3" by (simp add: newStrategy_def)
  have c: "confidenceScore newStrategy = 50" by (simp add: newStrategy_def)
  from confidence_update_formula [of newStrategy] h c show ?thesis by simp
qed


section \<open>Symbol normalisation\<close>

lemma replaceFirst_length:
  "pat \<noteq> [] \<Longrightarrow> includesSub s pat \<Longrightarrow> length (replaceFirst s pat []) < length s"
  by (induction s) (auto split: if_splits)





section \<open>Admission and execution\<close>

lemmas parse_defs = parseText_def parseObject_def lineValue_def trim_def isWhiteSpace_def
  toUpperCase_def upperChar_def normalize_def jsonSignal_def holdAlert_def

lemmas exec_defs = processWebhookSignal_def executeTrade_def createTrade_def resolvePrice_def
  tradeQuantity_def symbolOf_def executeDeltaOrder_def getCurrentPrice_def
  calculatePositionSize_def accountBalance_def validTrade_def todayTrades_def
  currentDayPnL_def Let_def

lemmas input_defs = deadExchange_def liveExchange_def paperUser_def filledToday_def
  stoppedConfig_def

lemma createTrade_Inr:
  assumes "createTrade e u sg price = Inr t"
  shows "t_price t = price" "t_quantity t = tradeQuantity u sg price" "t_status t = PENDING"
    "validTrade (s_side sg) (if s_type sg \<noteq> [] then s_type sg else ''MARKET'') (tradeQuantity u sg price)"
  using assms by (auto simp: createTrade_def Let_def split: if_splits)

lemma executeTrade_Inr:
  assumes "result (executeTrade e db u sg) = Inr t"
  obtains t0 oid where "createTrade e u sg (fst (resolvePrice e sg)) = Inr t0"
    and "(\<not> paperTradingMode u \<and> deltaConnected u) \<and> t = t0\<lparr>t_orderId := oid, t_status := PENDING\<rparr>
         \<or> \<not> (\<not> paperTradingMode u \<and> deltaConnected u)
           \<and> t = t0\<lparr>t_status := FILLED, t_executedPrice := fst (resolvePrice e sg)\<rparr>"
proof -
  obtain price calls1 where r: "resolvePrice e sg = (price, calls1)"
    by (cases "resolvePrice e sg")
  show thesis
  proof (cases "createTrade e u sg price")
    case (Inl err)
    with assms r show thesis by (simp add: executeTrade_def Let_def)
  next
    case (Inr t0)
    show thesis
    proof (cases "\<not> paperTradingMode u \<and> deltaConnected u")
      case True
      obtain ro calls2 where d: "executeDeltaOrder e u t0 = (ro, calls2)"
        by (cases "executeDeltaOrder e u t0")
      with assms r Inr True obtain oid where "ro = Some oid"
        by (cases ro) (simp_all add: executeTrade_def Let_def)
      with assms r Inr True d have "t = t0\<lparr>t_orderId := oid, t_status := PENDING\<rparr>"
        by (simp add: executeTrade_def Let_def)
      with that [of t0 oid] r Inr True show thesis by simp
    next
      case False
      with assms r Inr have "t = t0\<lparr>t_status := FILLED, t_executedPrice := price\<rparr>"
        by (simp add: executeTrade_def Let_def)
      with that [of t0 undefined] r Inr False show thesis by simp
    qed
  qed
qed




lemma processWebhookSignal_admitted:
  assumes "parseSignal (parseFloat e) raw = Some sg"
    and "result (processWebhookSignal e db u raw) = Inr t"
  shows "processWebhookSignal e db u raw = executeTrade e db u sg"
  using assms by (auto simp: processWebhookSignal_def split: if_splits)

lemma executeTrade_simulated:
  assumes "\<not> (\<not> paperTradingMode u \<and> deltaConnected u)"
    and "createTrade e u sg (fst (resolvePrice e sg)) = Inr t0"
  shows "executeTrade e db u sg
         = \<lparr>result = Inr (t0\<lparr>t_status := FILLED, t_executedPrice := fst (resolvePrice e sg)\<rparr>),
            stored = db @ [t0\<lparr>t_status := FILLED, t_executedPrice := fst (resolvePrice e sg)\<rparr>],
            calls = snd (resolvePrice e sg)\<rparr>"
proof -
  obtain price calls1 where r: "resolvePrice e sg = (price, calls1)"
    by (cases "resolvePrice e sg")
  with assms show ?thesis by (auto simp add: executeTrade_def Let_def)
qed

lemma resolvePrice_given:
  "s_price sg = Some p \<Longrightarrow> p \<noteq> 0 \<Longrightarrow> resolvePrice e sg = (p, [])"
  by (simp add: resolvePrice_def)

lemma resolvePrice_missing:
  "s_price sg = None \<or> s_price sg = Some 0 \<Longrightarrow>
   resolvePrice e sg = getCurrentPrice e (symbolOf sg)"
  by (auto simp: resolvePrice_def)

lemma getCurrentPrice_calls: "snd (getCurrentPrice e sy) = [GetTicker (sy @ ''USDT'')]"
  by (simp add: getCurrentPrice_def split: option.splits)


text \<open>
  C1. The claim: once the risk state of a user has emergencyStop = true, every signal
  is rejected at admission with EmergencyStopActive. The code at a failing input: the
  TradingConfig of user 1 has emergencyStop set, so that \<open>isTradingAllowed\<close> is false,
  and the webhook signal \<open>{symbol: 'BTCUSDT', action: 'buy', price: 50000}\<close> of that user
  is admitted and stored as a FILLED trade.
\<close>

theorem emergency_stop_not_consulted:
  "c_userId stoppedConfig = u_id paperUser
   \<and> emergencyStop stoppedConfig
   \<and> \<not> isTradingAllowed stoppedConfig ''12:00''
   \<and> processWebhookSignal deadExchange [] paperUser
         (jsonSignal (JStr ''BTCUSDT'') (JStr ''buy'') (JNum 50000) JUndefined)
       = \<lparr>result = Inr \<lparr>t_userId = 1, t_symbol = ''BTCUSDT'', t_side = ''BUY'',
                          t_type = ''MARKET'', t_quantity = Num (1 / 100), t_price = 50000,
                          t_executedPrice = 50000, t_status = FILLED, t_orderId = [],
                          t_strategy = ''webhook_signal'', t_confidenceScore = 75,
                          t_pnl = 0, t_fees = 0, t_paperTrade = True, t_createdAt = 1000\<rparr>,
          stored = [\<lparr>t_userId = 1, t_symbol = ''BTCUSDT'', t_side = ''BUY'',
                     t_type = ''MARKET'', t_quantity = Num (1 / 100), t_price = 50000,
                     t_executedPrice = 50000, t_status = FILLED, t_orderId = [],
                     t_strategy = ''webhook_signal'', t_confidenceScore = 75,
                     t_pnl = 0, t_fees = 0, t_paperTrade = True, t_createdAt = 1000\<rparr>],
          calls = []\<rparr>"
  by (simp add: parse_defs exec_defs input_defs isTradingAllowed_def)




text \<open>
  C7. The claim: an action token that is neither BUY nor SELL, compared without case,
  fails with InvalidSignalFormat and is never mapped to BUY or SELL. The code at a
  failing input: the alert text with \<open>ACTION: HOLD\<close> parses to a SELL signal and is
  executed as a SELL trade. The same token in an object payload is passed through as
  side HOLD and is refused only by the schema when the trade is created.
\<close>

theorem hold_token_becomes_sell:
  "toUpperCase ''HOLD'' \<noteq> ''BUY'' \<and> toUpperCase ''HOLD'' \<noteq> ''SELL''
   \<and> parseSignal (parseFloat deadExchange) holdAlert
       = Some \<lparr>s_symbol = Some ''BTC'', s_side = Some ''SELL'', s_price = None,
                 s_type = ''MARKET'', s_quantity = None\<rparr>
   \<and> result (processWebhookSignal deadExchange [] paperUser holdAlert)
       = Inr \<lparr>t_userId = 1, t_symbol = ''BTCUSDT'', t_side = ''SELL'',
                 t_type = ''MARKET'', t_quantity = Num (1 / 100), t_price = 50000,
                 t_executedPrice = 50000, t_status = FILLED, t_orderId = [],
                 t_strategy = ''webhook_signal'', t_confidenceScore = 75,
                 t_pnl = 0, t_fees = 0, t_paperTrade = True, t_createdAt = 1000\<rparr>
   \<and> parseSignal (parseFloat deadExchange)
         (jsonSignal (JStr ''BTCUSDT'') (JStr ''hold'') (JNum 50000) JUndefined)
       = Some \<lparr>s_symbol = Some ''BTC'', s_side = Some ''HOLD'', s_price = Some 50000,
                 s_type = ''MARKET'', s_quantity = None\<rparr>
   \<and> processWebhookSignal deadExchange [] paperUser
         (jsonSignal (JStr ''BTCUSDT'') (JStr ''hold'') (JNum 50000) JUndefined)
       = \<lparr>result = Inl TradeValidationError, stored = [], calls = []\<rparr>"
  by (simp add: parse_defs exec_defs input_defs)




text \<open>
  C9, as claimed: for a paper-trading user no call to the exchange is made. A signal
  without a price makes the service request the ticker of the symbol, also in paper
  mode.
\<close>

theorem paper_trade_counterexample:
  "paperTradingMode paperUser
   \<and> processWebhookSignal liveExchange [] paperUser
         (jsonSignal (JStr ''BTCUSDT'') (JStr ''buy'') JUndefined JUndefined)
       = \<lparr>result = Inr \<lparr>t_userId = 1, t_symbol = ''BTCUSDT'', t_side = ''BUY'',
                          t_type = ''MARKET'', t_quantity = Num (1 / 100), t_price = 40000,
                          t_executedPrice = 40000, t_status = FILLED, t_orderId = [],
                          t_strategy = ''webhook_signal'', t_confidenceScore = 75,
                          t_pnl = 0, t_fees = 0, t_paperTrade = True, t_createdAt = 1000\<rparr>,
          stored = [\<lparr>t_userId = 1, t_symbol = ''BTCUSDT'', t_side = ''BUY'',
                     t_type = ''MARKET'', t_quantity = Num (1 / 100), t_price = 40000,
                     t_executedPrice = 40000, t_status = FILLED, t_orderId = [],
                     t_strategy = ''webhook_signal'', t_confidenceScore = 75,
                     t_pnl = 0, t_fees = 0, t_paperTrade = True, t_createdAt = 1000\<rparr>],
          calls = [GetTicker ''BTCUSDT'']\<rparr>"
  by (simp add: parse_defs exec_defs input_defs)

text \<open>
  C9, amended. For every admitted signal of a user with paperTradingMode = true, the
  Trade is FILLED at once with executedPrice equal to the price of the trade, and no
  order is sent to the exchange. When the signal carries a non-zero price, that price is
  the price of the trade and no request at all is made; when it carries none, exactly
  one ticker request is made to price it.
\<close>

theorem paper_trade_filled:
  assumes "parseSignal (parseFloat e) raw = Some sg"
    and "paperTradingMode u"
    and "result (processWebhookSignal e db u raw) = Inr t"
  shows "t_status t = FILLED \<and> t_executedPrice t = t_price t
         \<and> (\<forall>ord. PostOrder ord \<notin> set (calls (processWebhookSignal e db u raw)))
         \<and> (s_price sg = Some p \<and> p \<noteq> 0 \<longrightarrow>
              t_price t = p \<and> calls (processWebhookSignal e db u raw) = [])
         \<and> (s_price sg = None \<or> s_price sg = Some 0 \<longrightarrow>
              calls (processWebhookSignal e db u raw) = [GetTicker (symbolOf sg @ ''USDT'')])"
proof -
  have eq: "processWebhookSignal e db u raw = executeTrade e db u sg"
    by (rule processWebhookSignal_admitted [OF assms(1,3)])
  with assms(3) have r: "result (executeTrade e db u sg) = Inr t" by simp
  from executeTrade_Inr [OF r] obtain t0
    where c: "createTrade e u sg (fst (resolvePrice e sg)) = Inr t0"
    by blast
  from assms(2) have sim: "\<not> (\<not> paperTradingMode u \<and> deltaConnected u)" by simp
  note ex = executeTrade_simulated [OF sim c, of db]
  from ex r have t: "t = t0\<lparr>t_status := FILLED, t_executedPrice := fst (resolvePrice e sg)\<rparr>"
    by simp
  from ex eq have cl: "calls (processWebhookSignal e db u raw) = snd (resolvePrice e sg)"
    by simp
  from t createTrade_Inr(1) [OF c]
  have a: "t_status t = FILLED" and b: "t_executedPrice t = t_price t"
    and pr: "t_price t = fst (resolvePrice e sg)"
    by simp_all
  have g: "s_price sg = Some p \<and> p \<noteq> 0 \<longrightarrow>
           t_price t = p \<and> calls (processWebhookSignal e db u raw) = []"
    using pr cl resolvePrice_given [of sg p e] by auto
  have m: "s_price sg = None \<or> s_price sg = Some 0 \<longrightarrow>
           calls (processWebhookSignal e db u raw) = [GetTicker (symbolOf sg @ ''USDT'')]"
    using cl resolvePrice_missing [of sg e] getCurrentPrice_calls [of e "symbolOf sg"] by auto
  have n: "\<forall>ord. PostOrder ord \<notin> set (calls (processWebhookSignal e db u raw))"
  proof (cases "s_price sg = None \<or> s_price sg = Some 0")
    case True
    with m show ?thesis by simp
  next
    case False
    then obtain q where "s_price sg = Some q" "q \<noteq> 0" by (cases "s_price sg") auto
    with cl resolvePrice_given [of sg q e] show ?thesis by simp
  qed
  from a b n g m show ?thesis by blast
qed

theorem paper_trade_filled_witness:
  "paperTradingMode paperUser
   \<and> processWebhookSignal deadExchange [] paperUser
         (jsonSignal (JStr ''BTCUSDT'') (JStr ''buy'') (JNum 50000) JUndefined)
       = \<lparr>result = Inr \<lparr>t_userId = 1, t_symbol = ''BTCUSDT'', t_side = ''BUY'',
                          t_type = ''MARKET'', t_quantity = Num (1 / 100), t_price = 50000,
                          t_executedPrice = 50000, t_status = FILLED, t_orderId = [],
                          t_strategy = ''webhook_signal'', t_confidenceScore = 75,
                          t_pnl = 0, t_fees = 0, t_paperTrade = True, t_createdAt = 1000\<rparr>,
          stored = [\<lparr>t_userId = 1, t_symbol = ''BTCUSDT'', t_side = ''BUY'',
                     t_type = ''MARKET'', t_quantity = Num (1 / 100), t_price = 50000,
                     t_executedPrice = 50000, t_status = FILLED, t_orderId = [],
                     t_strategy = ''webhook_signal'', t_confidenceScore = 75,
                     t_pnl = 0, t_fees = 0, t_paperTrade = True, t_createdAt = 1000\<rparr>],
          calls = []\<rparr>"
proof -
  let ?raw = "jsonSignal (JStr ''BTCUSDT'') (JStr ''buy'') (JNum 50000) JUndefined"
  let ?sg = "\<lparr>s_symbol = Some ''BTC'', s_side = Some ''BUY'', s_price = Some 50000,
              s_type = ''MARKET'', s_quantity = None\<rparr>"
  let ?t = "\<lparr>t_userId = 1, t_symbol = ''BTCUSDT'', t_side = ''BUY'',
             t_type = ''MARKET'', t_quantity = Num (1 / 100), t_price = 50000,
             t_executedPrice = 50000, t_status = FILLED, t_orderId = [],
             t_strategy = ''webhook_signal'', t_confidenceScore = 75,
             t_pnl = 0, t_fees = 0, t_paperTrade = True, t_createdAt = 1000\<rparr>"
  have p: "parseSignal (parseFloat deadExchange) ?raw = Some ?sg"
    by (simp add: parse_defs input_defs)
  have m: "paperTradingMode paperUser" by (simp add: input_defs)
  have r: "result (processWebhookSignal deadExchange [] paperUser ?raw) = Inr ?t"
    by (simp add: parse_defs exec_defs input_defs)
  have s: "stored (processWebhookSignal deadExchange [] paperUser ?raw) = [?t]"
    by (simp add: parse_defs exec_defs input_defs)
  from paper_trade_filled [OF p m r, of 50000]
  have "calls (processWebhookSignal deadExchange [] paperUser ?raw) = []" by simp
  with m r s show ?thesis
    by (cases "processWebhookSignal deadExchange [] paperUser ?raw") simp
qed


end
